theory Spec2Isabelle
  imports Main
begin

section \<open>Python values used by the views\<close>

text \<open>
  The service exists in two generations: the Flask application (\<open>src/src/api.py\<close>,
  \<open>src/src/server.py\<close>) and the Django application (\<open>src/doctor/views.py\<close>).
  Both are embedded below, function by function.  A Python \<open>str\<close> is a \<open>string\<close>
  whose characters are the code points below 256; a \<open>bytes\<close> object is a \<open>string\<close>
  whose characters are its bytes.  Exceptions are values of \<open>exn\<close>; a computation
  that may raise returns \<open>exn + 'a\<close>.
\<close>

datatype exn =
    KeyError string
  | TypeError string
  | AttributeError string
  | FileNotFoundError string
  | ValueError string
  | OSError string
  | ToolError string

fun str_exn :: "exn \<Rightarrow> string" where
  "str_exn (KeyError k) = [CHR 0x27] @ k @ [CHR 0x27]"
| "str_exn (TypeError m) = m"
| "str_exn (AttributeError m) = m"
| "str_exn (FileNotFoundError m) = m"
| "str_exn (ValueError m) = m"
| "str_exn (OSError m) = m"
| "str_exn (ToolError m) = m"

text \<open>A value that is either \<open>bytes\<close> or \<open>str\<close>: what \<open>.read()\<close> of an upload returns.\<close>

datatype pybuf = PyBytes string | PyStr string

text \<open>The value of \<open>do_ocr\<close> in the Flask view: a \<open>bool\<close> or the raw query string.\<close>

datatype pyval = PyBool bool | PyString string

fun truthy :: "pyval \<Rightarrow> bool" where
  "truthy (PyBool b) = b"
| "truthy (PyString s) = (s \<noteq> [])"

subsection \<open>String methods\<close>

text \<open>\<open>str.isspace\<close> on the code points below 256.\<close>

definition isspace :: "char \<Rightarrow> bool" where
  "isspace c = ((of_char c :: nat) \<in> {9, 10, 11, 12, 13, 28, 29, 30, 31, 32, 133, 160})"

text \<open>\<open>s.strip()\<close>\<close>

definition strip :: "string \<Rightarrow> string" where
  "strip s = rev (dropWhile isspace (rev (dropWhile isspace s)))"

text \<open>\<open>b.strip(chars)\<close>: removes leading and trailing bytes that occur in \<open>chars\<close>.\<close>

definition strip_chars :: "string \<Rightarrow> string \<Rightarrow> string" where
  "strip_chars chars s =
     rev (dropWhile (\<lambda>c. c \<in> set chars) (rev (dropWhile (\<lambda>c. c \<in> set chars) s)))"

text \<open>\<open>s.lower()\<close> on the code points below 256.\<close>

definition lower_char :: "char \<Rightarrow> char" where
  "lower_char c =
     (let n = (of_char c :: nat)
      in if (65 \<le> n \<and> n \<le> 90) \<or> (192 \<le> n \<and> n \<le> 222 \<and> n \<noteq> 215)
         then char_of (n + 32) else c)"

definition lower :: "string \<Rightarrow> string" where
  "lower s = map lower_char s"

text \<open>\<open>s.startswith(p)\<close>\<close>

definition startswith :: "string \<Rightarrow> string \<Rightarrow> bool" where
  "startswith p s = (take (length p) s = p)"

text \<open>The rest of \<open>s\<close> after the first occurrence of \<open>needle\<close>, if there is one.\<close>

fun after :: "string \<Rightarrow> string \<Rightarrow> string option" where
  "after needle [] = (if needle = [] then Some [] else None)"
| "after needle (c # cs) =
     (if startswith needle (c # cs) then Some (drop (length needle) (c # cs))
      else after needle cs)"

text \<open>\<open>needle in s\<close> for two values of the same type.\<close>

definition contains :: "string \<Rightarrow> string \<Rightarrow> bool" where
  "contains needle s = (after needle s \<noteq> None)"

text \<open>\<open>s.split(d)\<close> for a one-character separator.\<close>

fun split_on :: "char \<Rightarrow> string \<Rightarrow> string list" where
  "split_on d [] = [[]]"
| "split_on d (c # cs) =
     (if c = d then [] # split_on d cs
      else (case split_on d cs of [] \<Rightarrow> [[c]] | l # ls \<Rightarrow> (c # l) # ls))"

text \<open>\<open>str(n)\<close> for an integer.\<close>

function str_nat :: "nat \<Rightarrow> string" where
  "str_nat n =
     (if n < 10 then [''0123456789'' ! n]
      else str_nat (n div 10) @ [''0123456789'' ! (n mod 10)])"
  by pat_completeness auto
termination
  by (relation "measure id") auto

declare str_nat.simps [simp del]

definition str_int :: "int \<Rightarrow> string" where
  "str_int i = (if i < 0 then CHR ''-'' # str_nat (nat (- i)) else str_nat (nat i))"

text \<open>\<open>str(x)\<close> for an optional string and an optional integer (\<open>None\<close> prints as \<open>None\<close>).\<close>

definition str_opt :: "string option \<Rightarrow> string" where
  "str_opt x = (case x of None \<Rightarrow> ''None'' | Some s \<Rightarrow> s)"

definition str_opt_int :: "int option \<Rightarrow> string" where
  "str_opt_int x = (case x of None \<Rightarrow> ''None'' | Some i \<Rightarrow> str_int i)"

text \<open>
  \<open>re.findall(r"(Audio file with ID3.*MPEG.*layer III)|(.*Audio Media.*)", s)\<close> is
  non-empty exactly when some line of \<open>s\<close> (the dot does not match a newline) holds
  the three literals in this order, or holds \<open>Audio Media\<close>.
\<close>

definition audio_line :: "string \<Rightarrow> bool" where
  "audio_line l =
     ((case after ''Audio file with ID3'' l of
         None \<Rightarrow> False
       | Some r \<Rightarrow> (case after ''MPEG'' r of None \<Rightarrow> False | Some r' \<Rightarrow> contains ''layer III'' r'))
      \<or> contains ''Audio Media'' l)"

definition re_findall_audio :: "string \<Rightarrow> bool" where
  "re_findall_audio s = list_ex audio_line (split_on (CHR 0x0A) s)"

subsection \<open>Responses\<close>

datatype json = JNull | JBool bool | JInt int | JStr string

type_synonym json_obj = "(string \<times> json) list"

definition json_opt_str :: "string option \<Rightarrow> json" where
  "json_opt_str x = (case x of None \<Rightarrow> JNull | Some s \<Rightarrow> JStr s)"

definition json_opt_int :: "int option \<Rightarrow> json" where
  "json_opt_int x = (case x of None \<Rightarrow> JNull | Some i \<Rightarrow> JInt i)"

text \<open>A Django response: a body with a status, or a JSON object (status 200).\<close>

datatype http_response = HttpResponse string nat | JsonResponse json_obj

definition NOT_ACCEPTABLE :: nat where
  "NOT_ACCEPTABLE = 406"

section \<open>External collaborators\<close>

type_synonym path = string

text \<open>What an extractor returns: \<open>(content, err, returncode)\<close>.\<close>

type_synonym extraction = "string \<times> string option \<times> int"

text \<open>
  The task helpers (\<open>src.utils.tasks\<close>, \<open>doctor.tasks\<close>) wrap external programs and
  are parameters of the model.  Each may raise.  \<open>extract_from_pdf\<close> is the Flask
  helper, called on the rasterised TIFF; \<open>doctor_extract_from_pdf\<close> is the Django
  helper of the same name, called with the path and the \<open>ocr_available\<close> flag and
  returning \<open>(content, err, returncode, extracted_by_ocr)\<close>.  \<open>named_temporary_file\<close>
  is \<open>NamedTemporaryFile(suffix=...)\<close>: it gives the name of the file it made, or the
  exception it raised because no file of that name could be made.
\<close>

record tasks =
  make_pdftotext_process :: "path \<Rightarrow> exn + extraction"
  rasterize_pdf :: "path \<Rightarrow> path \<Rightarrow> exn + extraction"
  extract_from_pdf :: "path \<Rightarrow> exn + extraction"
  extract_from_doc :: "path \<Rightarrow> exn + extraction"
  extract_from_docx :: "path \<Rightarrow> exn + extraction"
  extract_from_html :: "path \<Rightarrow> exn + extraction"
  extract_from_txt :: "path \<Rightarrow> exn + extraction"
  extract_from_wpd :: "path \<Rightarrow> exn + extraction"
  doctor_extract_from_pdf :: "path \<Rightarrow> bool \<Rightarrow> exn + (string \<times> string option \<times> int \<times> bool)"
  get_page_count :: "path \<Rightarrow> string \<Rightarrow> exn + int option"
  named_temporary_file :: "string \<Rightarrow> exn + path"

text \<open>The calls a view makes to the helpers, in order.\<close>

datatype call =
    Pdftotext path
  | Rasterize path path
  | PdfOcr path
  | Doc path
  | Docx path
  | Html path
  | Txt path
  | Wpd path
  | ExtractFromPdf path bool
  | GetPageCount path string

text \<open>\<open>libmagic\<close> and the \<open>mimetypes\<close> table.\<close>

record libs =
  magic_from_buffer :: "pybuf \<Rightarrow> string"
  magic_from_buffer_mime :: "pybuf \<Rightarrow> string"
  guess_extension :: "string \<Rightarrow> string option"

section \<open>Effects: temporary files and helper calls\<close>

record world =
  fs :: "path set"
  trace :: "call list"

type_synonym 'a prog = "world \<Rightarrow> world \<times> (exn + 'a)"

definition ret :: "'a \<Rightarrow> 'a prog" where
  "ret x w = (w, Inr x)"

definition throw :: "exn \<Rightarrow> 'a prog" where
  "throw e w = (w, Inl e)"

definition pbind :: "'a prog \<Rightarrow> ('a \<Rightarrow> 'b prog) \<Rightarrow> 'b prog" where
  "pbind m f w = (case m w of (w', Inl e) \<Rightarrow> (w', Inl e) | (w', Inr x) \<Rightarrow> f x w')"

text \<open>A helper call: recorded, and its result or exception passed on.\<close>

definition invoke :: "call \<Rightarrow> exn + 'a \<Rightarrow> 'a prog" where
  "invoke c r w = (w\<lparr>trace := trace w @ [c]\<rparr>, r)"

text \<open>\<open>os.remove(p)\<close>\<close>

definition os_remove :: "path \<Rightarrow> unit prog" where
  "os_remove p w =
     (if p \<in> fs w then (w\<lparr>fs := fs w - {p}\<rparr>, Inr ())
      else (w, Inl (FileNotFoundError p)))"

text \<open>
  \<open>with NamedTemporaryFile(...) as tmp: body\<close>: when the file cannot be made the
  exception leaves the view before the body runs; otherwise the file is gone on every
  exit of the body.
\<close>

definition with_temp :: "exn + path \<Rightarrow> (path \<Rightarrow> 'a prog) \<Rightarrow> 'a prog" where
  "with_temp made body w =
     (case made of
        Inl e \<Rightarrow> (w, Inl e)
      | Inr p \<Rightarrow>
          (case body p (w\<lparr>fs := insert p (fs w)\<rparr>) of
             (w', r) \<Rightarrow> (w'\<lparr>fs := fs w' - {p}\<rparr>, r)))"

text \<open>\<open>try: body except Exception as e: handler\<close>\<close>

definition try_except :: "'a prog \<Rightarrow> (exn \<Rightarrow> 'a prog) \<Rightarrow> 'a prog" where
  "try_except body handler w =
     (case body w of (w', Inl e) \<Rightarrow> handler e w' | (w', Inr x) \<Rightarrow> (w', Inr x))"

section \<open>The Flask application (\<open>src/src/api.py\<close>)\<close>

record upload =
  filename :: string

record flask_request =
  file_field :: "upload option"
  do_ocr_arg :: "string option"

text \<open>
  Lines 62 to 64 (and \<open>src/src/server.py\<close>, lines 40 to 42):
  \<open>do_ocr = request.args.get("do_ocr", default=False)\<close>, then
  \<open>if do_ocr == "True": do_ocr = True\<close>.
\<close>

definition parse_do_ocr :: "string option \<Rightarrow> pyval" where
  "parse_do_ocr arg =
     (case arg of
        None \<Rightarrow> PyBool False
      | Some s \<Rightarrow> if s = ''True'' then PyBool True else PyString s)"

text \<open>
  \<open>extract_content\<close>, lines 54 to 104.  Lines 69 to 97 set the locals \<open>content\<close>,
  \<open>err\<close> and \<open>returncode\<close>; lines 98 to 104 print them into the result.
\<close>

definition extract_content_locals :: "tasks \<Rightarrow> pyval \<Rightarrow> string \<Rightarrow> path \<Rightarrow> extraction prog" where
  "extract_content_locals T do_ocr extension tmp =
     (if extension = ''pdf'' then
        pbind (invoke (Pdftotext tmp) (make_pdftotext_process T tmp))
          (\<lambda>(content, err, returncode).
             if truthy do_ocr \<and> length (strip content) = 0 then
               with_temp (named_temporary_file T ''.tiff'')
                 (\<lambda>tmp_tiff.
                    pbind (invoke (Rasterize tmp tmp_tiff) (rasterize_pdf T tmp tmp_tiff))
                      (\<lambda>_. pbind (invoke (PdfOcr tmp_tiff) (extract_from_pdf T tmp_tiff))
                        (\<lambda>(content, err, returncode).
                           if content = [] then
                             ret ([], Some ''Unable to extract document content'', 1)
                           else ret (content, err, returncode))))
             else if length (strip content) = 0 then
               ret ([], Some ''No content detected'', 1)
             else ret (content, err, returncode))
      else if extension = ''doc'' then invoke (Doc tmp) (extract_from_doc T tmp)
      else if extension = ''docx'' then invoke (Docx tmp) (extract_from_docx T tmp)
      else if extension = ''html'' then invoke (Html tmp) (extract_from_html T tmp)
      else if extension = ''txt'' then invoke (Txt tmp) (extract_from_txt T tmp)
      else if extension = ''wpd'' then invoke (Wpd tmp) (extract_from_wpd T tmp)
      else ret ([], Some ''Unable to extract content due to unknown extension'', 1))"

definition extract_content :: "tasks \<Rightarrow> flask_request \<Rightarrow> json_obj prog" where
  "extract_content T request =
     (case file_field request of
        None \<Rightarrow> throw (KeyError ''file'')
      | Some f \<Rightarrow>
          (let do_ocr = parse_do_ocr (do_ocr_arg request);
               extension = last (split_on (CHR ''.'') (filename f))
           in with_temp (named_temporary_file T (''.'' @ extension))
                (\<lambda>tmp. pbind (extract_content_locals T do_ocr extension tmp)
                   (\<lambda>(content, err, returncode).
                      ret [(''content'', JStr content),
                           (''err'', JStr (str_opt err)),
                           (''error_code'', JStr (str_int returncode))]))))"

text \<open>
  \<open>audio_conversion\<close>, lines 255 to 282.  \<open>convert_to_mp3\<close> tells whether it left a
  file at \<open>tmp_path\<close> and whether it raised; the other steps only return or raise.
\<close>

record audio_tools =
  convert_to_mp3 :: "string \<Rightarrow> path \<Rightarrow> bool \<times> (exn + unit)"
  set_mp3_meta_data :: "string \<Rightarrow> path \<Rightarrow> exn + json"
  convert_to_base64 :: "path \<Rightarrow> exn + string"

record audio_request =
  audio_file :: "string option"
  audio_data :: "exn + string"

definition run_convert_to_mp3 :: "audio_tools \<Rightarrow> string \<Rightarrow> path \<Rightarrow> unit prog" where
  "run_convert_to_mp3 A audio_bytes tmp_path w =
     (case convert_to_mp3 A audio_bytes tmp_path of
        (written, r) \<Rightarrow> ((if written then w\<lparr>fs := insert tmp_path (fs w)\<rparr> else w), r))"

definition audio_conversion ::
  "audio_tools \<Rightarrow> path \<Rightarrow> audio_request \<Rightarrow> (json_obj \<times> nat) prog" where
  "audio_conversion A tmp_path request =
     try_except
       (pbind (case audio_file request of
                 None \<Rightarrow> throw (KeyError ''audio_file'')
               | Some b \<Rightarrow> ret b)
         (\<lambda>audio_bytes. pbind (\<lambda>w. (w, audio_data request))
           (\<lambda>audio_data. pbind (run_convert_to_mp3 A audio_bytes tmp_path)
             (\<lambda>_. pbind (\<lambda>w. (w, set_mp3_meta_data A audio_data tmp_path))
               (\<lambda>duration. pbind (\<lambda>w. (w, convert_to_base64 A tmp_path))
                 (\<lambda>audio_b64. pbind (os_remove tmp_path)
                   (\<lambda>_. ret ([(''audio_b64'', JStr audio_b64),
                                (''duration'', duration),
                                (''msg'', JStr ''Success'')], 200))))))))
       (\<lambda>e w.
          ((if tmp_path \<in> fs w then w\<lparr>fs := fs w - {tmp_path}\<rparr> else w),
           Inr ([(''msg'', JStr (str_exn e))], 422)))"

section \<open>The Django application (\<open>src/doctor/views.py\<close>)\<close>

text \<open>
  \<open>DocumentForm\<close> and \<open>MimeForm\<close> (\<open>doctor.forms\<close>) validate the request; the views
  read the cleaned data.  \<open>form_fp\<close> is the path under which the form saved the upload.
  An invalid document form carries its first non-field error message, if it has one.
\<close>

record cleaned_data =
  form_ocr_available :: bool
  form_extension :: string
  form_fp :: path

datatype document_form = InvalidForm "string option" | ValidForm cleaned_data

datatype mime_form = InvalidMime | ValidMime pybuf

text \<open>
  Modelled from the spec: \<open>cleanup_form\<close> of \<open>doctor/lib/utils.py\<close> is missing from the
  sources.  Section 4.3, step 6: the saved upload is a temporary artifact of the call
  and is removed.
\<close>

definition cleanup_form :: "cleaned_data \<Rightarrow> unit prog" where
  "cleanup_form cd w = (w\<lparr>fs := fs w - {form_fp cd}\<rparr>, Inr ())"

text \<open>\<open>extract_pdf\<close>, lines 54 to 68.\<close>

definition extract_pdf :: "tasks \<Rightarrow> document_form \<Rightarrow> http_response prog" where
  "extract_pdf T form =
     try_except
       (case form of
          InvalidForm msg \<Rightarrow>
            (case msg of
               None \<Rightarrow> throw (KeyError ''__all__'')
             | Some validation_message \<Rightarrow> ret (HttpResponse validation_message NOT_ACCEPTABLE))
        | ValidForm cd \<Rightarrow>
            pbind (invoke (ExtractFromPdf (form_fp cd) (form_ocr_available cd))
                     (doctor_extract_from_pdf T (form_fp cd) (form_ocr_available cd)))
              (\<lambda>(content, err, returncode, extracted_by_ocr).
                 pbind (cleanup_form cd) (\<lambda>_. ret (HttpResponse content 200))))
       (\<lambda>e. ret (HttpResponse (str_exn e) NOT_ACCEPTABLE))"

text \<open>
  \<open>extract_doc_content\<close>, lines 87 to 127.  Lines 99 to 114 set the locals
  \<open>content\<close>, \<open>err\<close>, \<open>returncode\<close> and \<open>extracted_by_ocr\<close>; \<open>returncode\<close> is
  \<open>None\<close> where the source leaves it unbound (the last branch).  The response does
  not carry it.
\<close>

definition run_extractor ::
  "call \<Rightarrow> exn + extraction \<Rightarrow> (string \<times> string option \<times> int option \<times> bool) prog" where
  "run_extractor c r =
     pbind (invoke c r) (\<lambda>(content, err, returncode). ret (content, err, Some returncode, False))"

definition doc_content_locals ::
  "tasks \<Rightarrow> cleaned_data \<Rightarrow> (string \<times> string option \<times> int option \<times> bool) prog" where
  "doc_content_locals T cd =
     (if form_extension cd = ''pdf'' then
        pbind (invoke (ExtractFromPdf (form_fp cd) (form_ocr_available cd))
                 (doctor_extract_from_pdf T (form_fp cd) (form_ocr_available cd)))
          (\<lambda>(content, err, returncode, extracted_by_ocr).
             ret (content, err, Some returncode, extracted_by_ocr))
      else if form_extension cd = ''doc'' then run_extractor (Doc (form_fp cd)) (extract_from_doc T (form_fp cd))
      else if form_extension cd = ''docx'' then run_extractor (Docx (form_fp cd)) (extract_from_docx T (form_fp cd))
      else if form_extension cd = ''html'' then run_extractor (Html (form_fp cd)) (extract_from_html T (form_fp cd))
      else if form_extension cd = ''txt'' then run_extractor (Txt (form_fp cd)) (extract_from_txt T (form_fp cd))
      else if form_extension cd = ''wpd'' then run_extractor (Wpd (form_fp cd)) (extract_from_wpd T (form_fp cd))
      else ret ([], Some ''Unable to extract content due to unknown extension'', None, False))"

definition extract_doc_content :: "tasks \<Rightarrow> document_form \<Rightarrow> http_response prog" where
  "extract_doc_content T form =
     (case form of
        InvalidForm _ \<Rightarrow> ret (HttpResponse ''Failed validation'' NOT_ACCEPTABLE)
      | ValidForm cd \<Rightarrow>
          pbind (doc_content_locals T cd)
            (\<lambda>(content, err, returncode, extracted_by_ocr).
               pbind (invoke (GetPageCount (form_fp cd) (form_extension cd))
                        (get_page_count T (form_fp cd) (form_extension cd)))
                 (\<lambda>page_count. pbind (os_remove (form_fp cd))
                   (\<lambda>_. ret (JsonResponse
                           [(''content'', JStr content),
                            (''err'', json_opt_str err),
                            (''extension'', JStr (form_extension cd)),
                            (''extracted_by_ocr'', JBool extracted_by_ocr),
                            (''page_count'', json_opt_int page_count)])))))"

text \<open>\<open>page_count\<close>, lines 149 to 160.\<close>

definition page_count :: "tasks \<Rightarrow> document_form \<Rightarrow> http_response prog" where
  "page_count T form =
     (case form of
        InvalidForm _ \<Rightarrow> ret (HttpResponse ''Failed validation'' NOT_ACCEPTABLE)
      | ValidForm cd \<Rightarrow>
          pbind (invoke (GetPageCount (form_fp cd) (form_extension cd))
                   (get_page_count T (form_fp cd) (form_extension cd)))
            (\<lambda>pg_count. pbind (cleanup_form cd)
              (\<lambda>_. ret (HttpResponse (str_opt_int pg_count) 200))))"

text \<open>
  Modelled from the spec: \<open>get_page_count\<close> of \<open>doctor/tasks.py\<close> is missing from the
  sources.  Section 4.4: a PDF gives its structural page count, every other format
  gives null.  \<open>num_pages\<close> is the PDF reader: the number of pages of the document's
  structure, or an exception for a file it cannot read.
\<close>

definition spec_get_page_count ::
  "(path \<Rightarrow> exn + nat) \<Rightarrow> path \<Rightarrow> string \<Rightarrow> exn + int option" where
  "spec_get_page_count num_pages p ext =
     (if ext = ''pdf'' then
        (case num_pages p of Inl e \<Rightarrow> Inl e | Inr n \<Rightarrow> Inr (Some (int n)))
      else Inr None)"

text \<open>\<open>extract_mime_from_buffer\<close>, lines 177 to 186.\<close>

definition extract_mime_from_buffer :: "libs \<Rightarrow> mime_form \<Rightarrow> exn + http_response" where
  "extract_mime_from_buffer L form =
     (case form of
        InvalidMime \<Rightarrow> Inr (HttpResponse ''Failed validation'' NOT_ACCEPTABLE)
      | ValidMime file_buffer \<Rightarrow>
          (let mime = magic_from_buffer_mime L file_buffer;
               extension = guess_extension L mime
           in Inr (JsonResponse [(''mime'', JStr mime), (''extension'', json_opt_str extension)])))"

text \<open>
  \<open>extract_extension\<close>, lines 189 to 236, in its three steps: the MIME workarounds
  (lines 196 to 213), the resolution of the extension (lines 214 to 226) and the
  fix-up table (lines 228 to 236).
\<close>

definition workaround_mime :: "libs \<Rightarrow> pybuf \<Rightarrow> string" where
  "workaround_mime L content =
     (let file_str = magic_from_buffer L content
      in if startswith ''Composite Document File V2 Document'' file_str then ''application/msword''
         else if file_str = ''(Corel/WP)'' then ''application/vnd.wordperfect''
         else if file_str = ''C source, ASCII text'' then ''text/plain''
         else if startswith ''WordPerfect document'' file_str then ''application/vnd.wordperfect''
         else if re_findall_audio file_str then ''audio/mpeg''
         else magic_from_buffer_mime L content)"

text \<open>\<open>"PDF" in content[0:40]\<close>: a \<open>str\<close> on the left needs a \<open>str\<close> on the right.\<close>

definition pdf_in_head :: "pybuf \<Rightarrow> exn + bool" where
  "pdf_in_head content =
     (case content of
        PyStr s \<Rightarrow> Inr (contains ''PDF'' (take 40 s))
      | PyBytes b \<Rightarrow> Inl (TypeError ''a bytes-like object is required, not str''))"

text \<open>\<open>content.strip(b"%%EOF\r")\<close>: a \<open>bytes\<close> argument needs a \<open>bytes\<close> receiver.\<close>

definition strip_eof :: "pybuf \<Rightarrow> exn + pybuf" where
  "strip_eof content =
     (case content of
        PyBytes b \<Rightarrow>
          Inr (PyBytes (strip_chars
                 [CHR ''%'', CHR ''%'', CHR ''E'', CHR ''O'', CHR ''F'', CHR 0x0D] b))
      | PyStr s \<Rightarrow> Inl (TypeError ''strip arg must be None or str''))"

definition resolve_extension :: "libs \<Rightarrow> pybuf \<Rightarrow> exn + string option" where
  "resolve_extension L content =
     (let mime = workaround_mime L content;
          extension = guess_extension L mime
      in case (if extension = Some ''.obj'' then
                 (case pdf_in_head content of
                    Inl e \<Rightarrow> Inl e
                  | Inr found \<Rightarrow> Inr (if found then Some ''.pdf'' else Some ''.wpd''))
               else Inr extension) of
           Inl e \<Rightarrow> Inl e
         | Inr extension \<Rightarrow>
             if extension = Some ''.bin'' then
               (case strip_eof content of
                  Inl e \<Rightarrow> Inl e
                | Inr stripped \<Rightarrow> Inr (guess_extension L (magic_from_buffer_mime L stripped)))
             else Inr extension)"

text \<open>The dictionary \<open>fixes\<close> and \<open>fixes.get(extension, extension)\<close>.\<close>

definition fixes_dict :: "(string \<times> string) list" where
  "fixes_dict =
     [(''.htm'', ''.html''),
      (''.xml'', ''.html''),
      (''.wsdl'', ''.html''),
      (''.ksh'', ''.txt''),
      (''.asf'', ''.wma''),
      (''.dot'', ''.doc'')]"

definition fixes_get :: "string \<Rightarrow> string" where
  "fixes_get e = (case map_of fixes_dict e of None \<Rightarrow> e | Some e' \<Rightarrow> e')"

text \<open>\<open>fixes.get(extension, extension).lower()\<close>: \<open>None\<close> has no method \<open>lower\<close>.\<close>

definition fixed_lower :: "string option \<Rightarrow> exn + string" where
  "fixed_lower extension =
     (case extension of
        None \<Rightarrow> Inl (AttributeError ''NoneType object has no attribute lower'')
      | Some e \<Rightarrow> Inr (lower (fixes_get e)))"

definition extract_extension :: "libs \<Rightarrow> mime_form \<Rightarrow> exn + http_response" where
  "extract_extension L form =
     (case form of
        InvalidMime \<Rightarrow> Inr (HttpResponse ''Failed validation'' NOT_ACCEPTABLE)
      | ValidMime content \<Rightarrow>
          (case resolve_extension L content of
             Inl e \<Rightarrow> Inl e
           | Inr extension \<Rightarrow>
               (case fixed_lower extension of
                  Inl e \<Rightarrow> Inl e
                | Inr body \<Rightarrow> Inr (HttpResponse body 200))))"

section \<open>Sample collaborators\<close>

text \<open>
  \<open>NamedTemporaryFile\<close> on a Linux host, for the suffixes seen here: a NUL byte is
  refused, a suffix that ends in a slash names a directory, any other slash names a
  directory that does not exist, and a very long suffix exceeds the length of a file
  name.  Otherwise the file is made.
\<close>

definition sample_temporary_file :: "string \<Rightarrow> exn + path" where
  "sample_temporary_file suffix =
     (if CHR 0x00 \<in> set suffix then Inl (ValueError ''embedded null byte'')
      else if suffix \<noteq> [] \<and> last suffix = CHR ''/'' then Inl (OSError ''Is a directory'')
      else if CHR ''/'' \<in> set suffix then Inl (FileNotFoundError ''No such file or directory'')
      else if 244 < length suffix then Inl (OSError ''File name too long'')
      else Inr (''/tmp/tmpa1'' @ suffix))"

text \<open>
  Collaborators for the worked runs.  \<open>pdftotext\<close> prints one form feed per page, as
  it does for a scan without a text layer; the OCR helper of the Flask service finds
  nothing; the Django helper reports text found by OCR when OCR is available and the
  form feeds otherwise; the Word reader raises.  The page count is the one given by
  \<open>spec_get_page_count\<close> for a reader that counts two pages.
\<close>

definition blank_scan_tasks :: tasks where
  "blank_scan_tasks =
     \<lparr>make_pdftotext_process = (\<lambda>p. Inr ([CHR 0x0C, CHR 0x0C], None, 0)),
      rasterize_pdf = (\<lambda>p q. Inr ([], None, 0)),
      extract_from_pdf = (\<lambda>p. Inr ([], None, 0)),
      extract_from_doc = (\<lambda>p. Inl (ToolError ''antiword: not a Word document'')),
      extract_from_docx = (\<lambda>p. Inr (''text of the docx'', None, 0)),
      extract_from_html = (\<lambda>p. Inr (''text of the page'', None, 0)),
      extract_from_txt = (\<lambda>p. Inr (''text of the file'', None, 0)),
      extract_from_wpd = (\<lambda>p. Inr (''text of the wpd'', None, 0)),
      doctor_extract_from_pdf =
        (\<lambda>p ocr. if ocr then Inr (''(Slip Opinion)'', None, 0, True)
                  else Inr ([CHR 0x0C, CHR 0x0C], None, 0, False)),
      get_page_count = spec_get_page_count (\<lambda>p. Inr 2),
      named_temporary_file = sample_temporary_file\<rparr>"

text \<open>The same scan with a legible page: the OCR helper of the Flask service reads it.\<close>

definition legible_scan_tasks :: tasks where
  "legible_scan_tasks =
     blank_scan_tasks\<lparr>extract_from_pdf := (\<lambda>p. Inr (''(Slip Opinion)'', None, 0))\<rparr>"

definition flask_upload :: "string \<Rightarrow> string option \<Rightarrow> flask_request" where
  "flask_upload name do_ocr = \<lparr>file_field = Some \<lparr>filename = name\<rparr>, do_ocr_arg = do_ocr\<rparr>"

definition django_upload :: "string \<Rightarrow> bool \<Rightarrow> document_form" where
  "django_upload ext ocr =
     ValidForm \<lparr>form_ocr_available = ocr, form_extension = ext, form_fp = ''/tmp/upload''\<rparr>"

text \<open>The state before a Flask request, and after a Django form has saved its upload.\<close>

definition empty_world :: world where
  "empty_world = \<lparr>fs = {}, trace = []\<rparr>"

definition saved_upload_world :: world where
  "saved_upload_world = \<lparr>fs = {''/tmp/upload''}, trace = []\<rparr>"

text \<open>
  A small sniffer and MIME table: an OLE2 container, a WordPerfect file, a PDF, an HTML
  page and a DOS executable are recognised by their first bytes, everything else is
  \<open>data\<close>.  The table is the one the workarounds of \<open>extract_extension\<close> expect
  (\<open>.obj\<close> for a binary stream, \<open>.dot\<close> for Word); it has no entry for executables.
\<close>

definition buffer_bytes :: "pybuf \<Rightarrow> string" where
  "buffer_bytes c = (case c of PyBytes b \<Rightarrow> b | PyStr s \<Rightarrow> s)"

definition sample_magic :: "pybuf \<Rightarrow> string" where
  "sample_magic c =
     (let b = buffer_bytes c
      in if startswith [CHR 0xD0, CHR 0xCF, CHR 0x11, CHR 0xE0] b
           then ''Composite Document File V2 Document, Little Endian''
         else if startswith [CHR 0xFF, CHR ''W'', CHR ''P'', CHR ''C''] b then ''(Corel/WP)''
         else if startswith ''%PDF-'' b then ''PDF document, version 1.4''
         else if startswith ''<html'' b then ''HTML document, ASCII text''
         else if startswith ''MZ'' b then ''MS-DOS executable''
         else ''data'')"

definition sample_magic_mime :: "pybuf \<Rightarrow> string" where
  "sample_magic_mime c =
     (let b = buffer_bytes c
      in if startswith [CHR 0xD0, CHR 0xCF, CHR 0x11, CHR 0xE0] b then ''application/CDFV2''
         else if startswith ''%PDF-'' b then ''application/pdf''
         else if startswith ''<html'' b then ''text/html''
         else if startswith ''MZ'' b then ''application/x-dosexec''
         else ''application/octet-stream'')"

definition sample_mime_table :: "(string \<times> string) list" where
  "sample_mime_table =
     [(''application/msword'', ''.dot''),
      (''application/vnd.wordperfect'', ''.wpd''),
      (''application/pdf'', ''.pdf''),
      (''text/html'', ''.htm''),
      (''application/octet-stream'', ''.obj'')]"

definition sample_libs :: libs where
  "sample_libs =
     \<lparr>magic_from_buffer = sample_magic,
      magic_from_buffer_mime = sample_magic_mime,
      guess_extension = map_of sample_mime_table\<rparr>"





section \<open>Auxiliary facts\<close>

lemmas prog_defs =
  ret_def throw_def pbind_def invoke_def os_remove_def with_temp_def try_except_def

lemmas sample_defs =
  blank_scan_tasks_def legible_scan_tasks_def sample_temporary_file_def flask_upload_def
  django_upload_def empty_world_def saved_upload_world_def

lemma dropWhile_all: "list_all P (dropWhile P s) \<longleftrightarrow> list_all P s"
  by (induction s) auto

text \<open>\<open>len(content.strip()) == 0\<close> says that the content is empty or only whitespace.\<close>

lemma strip_empty_iff: "strip s = [] \<longleftrightarrow> list_all isspace s"
proof -
  have "strip s = [] \<longleftrightarrow> list_all isspace (dropWhile isspace s)"
    by (simp add: strip_def dropWhile_eq_Nil_conv list_all_iff)
  then show ?thesis by (simp add: dropWhile_all)
qed

lemma str_int_1: "str_int 1 = ''1''"
  by (simp add: str_int_def str_nat.simps)

lemma str_int_0: "str_int 0 = ''0''"
  by (simp add: str_int_def str_nat.simps)

lemma str_int_values:
  "str_int 0 = ''0''" "str_int 1 = ''1''" "str_int 2 = ''2''" "str_int 127 = ''127''"
  "str_int 1024 = ''1024''" "str_int (- 9) = ''-9''" "str_int (- 15) = ''-15''"
  by (simp_all add: str_int_def str_nat.simps)



section \<open>The OCR fallback of the PDF branch\<close>








section \<open>Unknown extensions\<close>









section \<open>Image-only PDFs without OCR\<close>





section \<open>The fields of a result\<close>

lemma flask_result_prints_locals:
  assumes "snd (extract_content T request w) = Inr obj"
  shows "\<exists>f tmp content err rc.
           file_field request = Some f
         \<and> named_temporary_file T (''.'' @ last (split_on (CHR ''.'') (filename f))) = Inr tmp
         \<and> snd (extract_content_locals T (parse_do_ocr (do_ocr_arg request))
                   (last (split_on (CHR ''.'') (filename f))) tmp
                   (w\<lparr>fs := insert tmp (fs w)\<rparr>)) = Inr (content, err, rc)
         \<and> obj = [(''content'', JStr content),
                  (''err'', JStr (case err of None \<Rightarrow> ''None'' | Some s \<Rightarrow> s)),
                  (''error_code'', JStr (str_int rc))]"
  using assms
  by (auto simp: extract_content_def throw_def ret_def pbind_def with_temp_def Let_def str_opt_def
           split: option.splits sum.splits prod.splits)

lemma flask_extractor_result:
  assumes "file_field request = Some f"
    and "last (split_on (CHR ''.'') (filename f)) = ext"
    and "named_temporary_file T (''.'' @ ext) = Inr tmp"
    and "(ext = ''doc'' \<and> extract_from_doc T tmp = Inr (content, err, rc))
       \<or> (ext = ''docx'' \<and> extract_from_docx T tmp = Inr (content, err, rc))
       \<or> (ext = ''html'' \<and> extract_from_html T tmp = Inr (content, err, rc))
       \<or> (ext = ''txt'' \<and> extract_from_txt T tmp = Inr (content, err, rc))
       \<or> (ext = ''wpd'' \<and> extract_from_wpd T tmp = Inr (content, err, rc))
       \<or> (ext = ''pdf'' \<and> make_pdftotext_process T tmp = Inr (content, err, rc)
           \<and> \<not> list_all isspace content)"
  shows "snd (extract_content T request w) =
           Inr [(''content'', JStr content),
                (''err'', JStr (case err of None \<Rightarrow> ''None'' | Some s \<Rightarrow> s)),
                (''error_code'', JStr (str_int rc))]"
  using assms
  by (auto simp: extract_content_def extract_content_locals_def prog_defs Let_def str_opt_def
        strip_empty_iff)

lemma django_result_prints_locals:
  assumes "snd (extract_doc_content T form w) = Inr (JsonResponse obj)"
  shows "\<exists>cd content err rc by_ocr pc.
           form = ValidForm cd
         \<and> snd (doc_content_locals T cd w) = Inr (content, err, rc, by_ocr)
         \<and> get_page_count T (form_fp cd) (form_extension cd) = Inr pc
         \<and> obj = [(''content'', JStr content),
                  (''err'', (case err of None \<Rightarrow> JNull | Some s \<Rightarrow> JStr s)),
                  (''extension'', JStr (form_extension cd)),
                  (''extracted_by_ocr'', JBool by_ocr),
                  (''page_count'', (case pc of None \<Rightarrow> JNull | Some i \<Rightarrow> JInt i))]"
proof (cases form)
  case (InvalidForm m)
  with assms show ?thesis by (simp add: extract_doc_content_def ret_def)
next
  case (ValidForm cd)
  obtain w1 r1 where l: "doc_content_locals T cd w = (w1, r1)"
    by (cases "doc_content_locals T cd w")
  show ?thesis
    using assms ValidForm l
    by (auto simp: extract_doc_content_def prog_defs json_opt_str_def json_opt_int_def
             split: sum.splits prod.splits if_splits)
qed

text \<open>
  Against claim C4 as stated: for a \<open>docx\<close> upload the Django response has the five
  fields \<open>content\<close>, \<open>err\<close>, \<open>extension\<close>, \<open>extracted_by_ocr\<close> and \<open>page_count\<close> and
  no exit code, and the Flask result has \<open>content\<close>, \<open>err\<close> and an \<open>error_code\<close>
  that is the string \<open>0\<close>, not an integer.
\<close>

theorem docx_results_carry_no_integer_exit_code:
  "snd (extract_doc_content blank_scan_tasks (django_upload ''docx'' False) saved_upload_world) =
     Inr (JsonResponse
           [(''content'', JStr ''text of the docx''),
            (''err'', JNull),
            (''extension'', JStr ''docx''),
            (''extracted_by_ocr'', JBool False),
            (''page_count'', JNull)])
   \<and> snd (extract_content blank_scan_tasks (flask_upload ''brief.docx'' None) empty_world) =
       Inr [(''content'', JStr ''text of the docx''),
            (''err'', JStr ''None''),
            (''error_code'', JStr ''0'')]"
  by (simp add: sample_defs extract_doc_content_def doc_content_locals_def run_extractor_def
        extract_content_def extract_content_locals_def prog_defs spec_get_page_count_def
        json_opt_str_def json_opt_int_def str_opt_def str_int_0 Let_def)

text \<open>
  Claim C4, amended.  Every JSON response of the Django view has exactly the fields
  \<open>content\<close>, \<open>err\<close>, \<open>extension\<close>, \<open>extracted_by_ocr\<close> and \<open>page_count\<close>, in this
  order, holding the view's locals of these names (\<open>err\<close> and \<open>page_count\<close> null
  when they are \<open>None\<close>); the local \<open>returncode\<close> is not in the response.  Every
  result of the Flask view has exactly the fields \<open>content\<close>, \<open>err\<close> and
  \<open>error_code\<close>: the local \<open>content\<close>, \<open>str(err)\<close> and \<open>str(returncode)\<close>, the
  decimal string of the view's return code.  For \<open>doc\<close>, \<open>docx\<close>, \<open>html\<close>, \<open>txt\<close>
  and \<open>wpd\<close>, and for a PDF with text, these are the content, error and return code
  that the extractor returned.
\<close>

theorem extraction_result_fields:
  "(snd (extract_doc_content T form w) = Inr (JsonResponse obj)
    \<longrightarrow> (\<exists>cd content err rc by_ocr pc.
           form = ValidForm cd
         \<and> snd (doc_content_locals T cd w) = Inr (content, err, rc, by_ocr)
         \<and> get_page_count T (form_fp cd) (form_extension cd) = Inr pc
         \<and> obj = [(''content'', JStr content),
                  (''err'', (case err of None \<Rightarrow> JNull | Some s \<Rightarrow> JStr s)),
                  (''extension'', JStr (form_extension cd)),
                  (''extracted_by_ocr'', JBool by_ocr),
                  (''page_count'', (case pc of None \<Rightarrow> JNull | Some i \<Rightarrow> JInt i))]))
   \<and> (snd (extract_content T request w') = Inr obj'
    \<longrightarrow> (\<exists>f tmp content err rc.
           file_field request = Some f
         \<and> named_temporary_file T (''.'' @ last (split_on (CHR ''.'') (filename f))) = Inr tmp
         \<and> snd (extract_content_locals T (parse_do_ocr (do_ocr_arg request))
                   (last (split_on (CHR ''.'') (filename f))) tmp
                   (w'\<lparr>fs := insert tmp (fs w')\<rparr>)) = Inr (content, err, rc)
         \<and> obj' = [(''content'', JStr content),
                   (''err'', JStr (case err of None \<Rightarrow> ''None'' | Some s \<Rightarrow> s)),
                   (''error_code'', JStr (str_int rc))]))
   \<and> (file_field request = Some f
      \<and> last (split_on (CHR ''.'') (filename f)) = ext
      \<and> named_temporary_file T (''.'' @ ext) = Inr tmp
      \<and> ((ext = ''doc'' \<and> extract_from_doc T tmp = Inr (content, err, rc))
         \<or> (ext = ''docx'' \<and> extract_from_docx T tmp = Inr (content, err, rc))
         \<or> (ext = ''html'' \<and> extract_from_html T tmp = Inr (content, err, rc))
         \<or> (ext = ''txt'' \<and> extract_from_txt T tmp = Inr (content, err, rc))
         \<or> (ext = ''wpd'' \<and> extract_from_wpd T tmp = Inr (content, err, rc))
         \<or> (ext = ''pdf'' \<and> make_pdftotext_process T tmp = Inr (content, err, rc)
             \<and> \<not> list_all isspace content))
    \<longrightarrow> snd (extract_content T request w') =
           Inr [(''content'', JStr content),
                (''err'', JStr (case err of None \<Rightarrow> ''None'' | Some s \<Rightarrow> s)),
                (''error_code'', JStr (str_int rc))])
   \<and> str_int 0 = ''0'' \<and> str_int 1 = ''1'' \<and> str_int 2 = ''2'' \<and> str_int 127 = ''127''
   \<and> str_int 1024 = ''1024'' \<and> str_int (- 9) = ''-9'' \<and> str_int (- 15) = ''-15''"
  using django_result_prints_locals [of T form w obj]
        flask_result_prints_locals [of T request w' obj']
        flask_extractor_result [of request f ext T tmp content err rc w']
        str_int_values
  by blast

theorem extraction_result_fields_witness:
  "snd (extract_doc_content blank_scan_tasks (django_upload ''docx'' False) saved_upload_world) =
     Inr (JsonResponse
           [(''content'', JStr ''text of the docx''),
            (''err'', JNull),
            (''extension'', JStr ''docx''),
            (''extracted_by_ocr'', JBool False),
            (''page_count'', JNull)])
   \<and> snd (doc_content_locals blank_scan_tasks
             \<lparr>form_ocr_available = False, form_extension = ''docx'', form_fp = ''/tmp/upload''\<rparr>
             saved_upload_world) = Inr (''text of the docx'', None, Some 0, False)
   \<and> extract_from_wpd blank_scan_tasks ''/tmp/tmpa1.wpd'' = Inr (''text of the wpd'', None, 0)
   \<and> snd (extract_content blank_scan_tasks (flask_upload ''brief.wpd'' None) empty_world) =
       Inr [(''content'', JStr ''text of the wpd''),
            (''err'', JStr ''None''),
            (''error_code'', JStr ''0'')]
   \<and> snd (extract_content_locals blank_scan_tasks (PyBool False) ''wpd'' ''/tmp/tmpa1.wpd''
             \<lparr>fs = {''/tmp/tmpa1.wpd''}, trace = []\<rparr>) = Inr (''text of the wpd'', None, 0)"
  using extraction_result_fields
    [where T = blank_scan_tasks and form = "django_upload ''docx'' False"
       and w = saved_upload_world
       and obj = "[(''content'', JStr ''text of the docx''),
                   (''err'', JNull),
                   (''extension'', JStr ''docx''),
                   (''extracted_by_ocr'', JBool False),
                   (''page_count'', JNull)]"
       and request = "flask_upload ''brief.wpd'' None" and w' = empty_world
       and f = "\<lparr>filename = ''brief.wpd''\<rparr>" and ext = "''wpd''"
       and tmp = "''/tmp/tmpa1.wpd''" and content = "''text of the wpd''" and err = None
       and rc = 0
       and obj' = "[(''content'', JStr ''text of the wpd''),
                    (''err'', JStr ''None''),
                    (''error_code'', JStr ''0'')]"]
  by (simp add: sample_defs extract_doc_content_def doc_content_locals_def run_extractor_def
        extract_content_locals_def prog_defs spec_get_page_count_def parse_do_ocr_def
        json_opt_str_def json_opt_int_def str_int_0)

section \<open>The extension resolver\<close>

lemmas sniff_defs =
  sample_libs_def sample_magic_def sample_magic_mime_def
  sample_mime_table_def buffer_bytes_def startswith_def














lemma missing_extension_raises:
  assumes "resolve_extension L content = Inr None"
  shows "extract_extension L (ValidMime content) =
           Inl (AttributeError ''NoneType object has no attribute lower'')"
  using assms by (simp add: extract_extension_def fixed_lower_def)











text \<open>
  Claim C6.  For a MIME without an entry in the table, \<open>extract_mime_from_buffer\<close>
  returns the MIME with a null extension, but \<open>extract_extension\<close> calls \<open>lower\<close>
  on \<open>None\<close> and raises \<open>AttributeError\<close> (lemma \<open>missing_extension_raises\<close>).
  Here: an executable, whose MIME \<open>application/x-dosexec\<close> the table does not hold.
\<close>

theorem missing_mime_entry:
  "extract_mime_from_buffer sample_libs (ValidMime (PyBytes ''MZ executable'')) =
     Inr (JsonResponse [(''mime'', JStr ''application/x-dosexec''), (''extension'', JNull)])
   \<and> extract_extension sample_libs (ValidMime (PyBytes ''MZ executable'')) =
     Inl (AttributeError ''NoneType object has no attribute lower'')"
  by (simp add: extract_mime_from_buffer_def extract_extension_def resolve_extension_def
        workaround_mime_def fixed_lower_def json_opt_str_def
        sniff_defs re_findall_audio_def audio_line_def contains_def Let_def)




section \<open>Page counts\<close>

lemma spec_page_count_not_pdf:
  "ext \<noteq> ''pdf'' \<Longrightarrow> spec_get_page_count np p ext = Inr None"
  by (simp add: spec_get_page_count_def)

lemma spec_page_count_pdf:
  "np p = Inr n \<Longrightarrow> spec_get_page_count np p ''pdf'' = Inr (Some (int n))"
  by (simp add: spec_get_page_count_def)

lemma page_count_view_not_pdf:
  assumes "get_page_count T = spec_get_page_count np" and "form_extension cd \<noteq> ''pdf''"
  shows "snd (page_count T (ValidForm cd) w) = Inr (HttpResponse ''None'' 200)"
  using assms by (simp add: page_count_def prog_defs cleanup_form_def spec_get_page_count_def str_opt_int_def)

lemma page_count_view_pdf:
  assumes "get_page_count T = spec_get_page_count np" and "form_extension cd = ''pdf''"
    and "np (form_fp cd) = Inr n"
  shows "snd (page_count T (ValidForm cd) w) = Inr (HttpResponse (str_int (int n)) 200)"
  using assms by (simp add: page_count_def prog_defs cleanup_form_def spec_get_page_count_def str_opt_int_def)

lemma doc_content_page_count:
  assumes "get_page_count T = spec_get_page_count np"
    and "snd (extract_doc_content T (ValidForm cd) w) = Inr (JsonResponse obj)"
  shows "if form_extension cd = ''pdf''
         then \<exists>n. np (form_fp cd) = Inr n \<and> map_of obj ''page_count'' = Some (JInt (int n))
         else map_of obj ''page_count'' = Some JNull"
  using assms
  by (auto simp: extract_doc_content_def doc_content_locals_def run_extractor_def prog_defs
        spec_get_page_count_def json_opt_int_def
        split: option.splits sum.splits prod.splits if_splits)

text \<open>
  Claim C8.  With the page count of section 4.4 of the spec: every extension other than
  \<open>pdf\<close> gives null, and a PDF that the reader can read gives its number of pages, an
  integer that is not negative.  The \<open>page_count\<close> view prints \<open>None\<close> or the
  number; \<open>extract_doc_content\<close> puts null or the number in the field \<open>page_count\<close>.
\<close>

theorem page_count_is_count_or_null:
  "(ext \<noteq> ''pdf'' \<longrightarrow> spec_get_page_count np p ext = Inr None)
   \<and> (np p = Inr n \<longrightarrow> spec_get_page_count np p ''pdf'' = Inr (Some (int n)) \<and> 0 \<le> int n)
   \<and> (get_page_count T = spec_get_page_count np \<and> form_extension cd \<noteq> ''pdf''
       \<longrightarrow> snd (page_count T (ValidForm cd) w) = Inr (HttpResponse ''None'' 200))
   \<and> (get_page_count T = spec_get_page_count np \<and> form_extension cd = ''pdf''
        \<and> np (form_fp cd) = Inr n'
       \<longrightarrow> snd (page_count T (ValidForm cd) w) = Inr (HttpResponse (str_int (int n')) 200))
   \<and> (get_page_count T = spec_get_page_count np
        \<and> snd (extract_doc_content T (ValidForm cd) w) = Inr (JsonResponse obj)
       \<longrightarrow> (if form_extension cd = ''pdf''
            then \<exists>k. np (form_fp cd) = Inr k \<and> map_of obj ''page_count'' = Some (JInt (int k))
            else map_of obj ''page_count'' = Some JNull))"
  using spec_page_count_not_pdf [of ext np p] spec_page_count_pdf [of np p n]
        page_count_view_not_pdf [of T np cd w] page_count_view_pdf [of T np cd n' w]
        doc_content_page_count [of T np cd w obj]
  by simp

theorem page_count_is_count_or_null_witness:
  "spec_get_page_count (\<lambda>p. Inr 2) ''/tmp/upload'' ''doc'' = Inr None
   \<and> spec_get_page_count (\<lambda>p. Inr 2) ''/tmp/upload'' ''pdf'' = Inr (Some 2)
   \<and> get_page_count blank_scan_tasks = spec_get_page_count (\<lambda>p. Inr 2)
   \<and> snd (page_count blank_scan_tasks (django_upload ''doc'' False) saved_upload_world)
       = Inr (HttpResponse ''None'' 200)
   \<and> snd (page_count blank_scan_tasks (django_upload ''pdf'' False) saved_upload_world)
       = Inr (HttpResponse ''2'' 200)
   \<and> snd (extract_doc_content blank_scan_tasks (django_upload ''docx'' False) saved_upload_world) =
       Inr (JsonResponse
             [(''content'', JStr ''text of the docx''),
              (''err'', JNull),
              (''extension'', JStr ''docx''),
              (''extracted_by_ocr'', JBool False),
              (''page_count'', JNull)])
   \<and> snd (extract_doc_content blank_scan_tasks (django_upload ''pdf'' False) saved_upload_world) =
       Inr (JsonResponse
             [(''content'', JStr [CHR 0x0C, CHR 0x0C]),
              (''err'', JNull),
              (''extension'', JStr ''pdf''),
              (''extracted_by_ocr'', JBool False),
              (''page_count'', JInt 2)])"
  using page_count_is_count_or_null
          [where ext = "''doc''" and np = "\<lambda>p. Inr 2" and p = "''/tmp/upload''" and n = 2
             and T = blank_scan_tasks
             and cd = "\<lparr>form_ocr_available = False, form_extension = ''doc'', form_fp = ''/tmp/upload''\<rparr>"
             and w = saved_upload_world and n' = 2 and obj = "[]"]
        page_count_is_count_or_null
          [where ext = "''doc''" and np = "\<lambda>p. Inr 2" and p = "''/tmp/upload''" and n = 2
             and T = blank_scan_tasks
             and cd = "\<lparr>form_ocr_available = False, form_extension = ''pdf'', form_fp = ''/tmp/upload''\<rparr>"
             and w = saved_upload_world and n' = 2 and obj = "[]"]
  by (simp add: sample_defs str_int_def str_nat.simps extract_doc_content_def
        doc_content_locals_def run_extractor_def prog_defs spec_get_page_count_def
        json_opt_str_def json_opt_int_def)

section \<open>Temporary files\<close>

lemma audio_conversion_removes_tmp_path:
  "tmp_path \<notin> fs (fst (audio_conversion A tmp_path request w))"
  by (auto simp: audio_conversion_def run_convert_to_mp3_def prog_defs
           split: option.splits sum.splits prod.splits if_splits)

lemma extract_content_removes_temporary_file:
  assumes "file_field request = Some f"
    and "named_temporary_file T (''.'' @ last (split_on (CHR ''.'') (filename f))) = Inr tmp"
  shows "tmp \<notin> fs (fst (extract_content T request w))"
  using assms
  by (simp add: extract_content_def with_temp_def Let_def split: prod.splits)

lemma doc_content_locals_fs: "fs (fst (doc_content_locals T cd w)) = fs w"
  by (simp add: doc_content_locals_def run_extractor_def prog_defs split: sum.splits prod.splits)

lemma extract_doc_content_fs:
  "fs (fst (extract_doc_content T (ValidForm cd) w)) =
     (case snd (extract_doc_content T (ValidForm cd) w) of
        Inl e \<Rightarrow> fs w
      | Inr r \<Rightarrow> fs w - {form_fp cd})"
proof -
  obtain w1 r1 where l: "doc_content_locals T cd w = (w1, r1)"
    by (cases "doc_content_locals T cd w")
  have f: "fs w1 = fs w"
    using doc_content_locals_fs [of T cd w] l by simp
  show ?thesis
    using l f
    by (auto simp: extract_doc_content_def prog_defs split: sum.splits prod.splits)
qed

text \<open>
  Claim C9.  The Flask views remove their temporary files on every path (lemmas
  \<open>audio_conversion_removes_tmp_path\<close>, \<open>extract_content_removes_temporary_file\<close>).
  \<open>extract_doc_content\<close> removes the saved upload only when it returns; when a helper
  raises, the file stays (lemma \<open>extract_doc_content_fs\<close>).  \<open>extract_pdf\<close> catches
  the exception and answers 406 without calling \<open>cleanup_form\<close>.  Here: a \<open>doc\<close>
  upload that the Word reader rejects, and a PDF on which the helper raises.
\<close>

theorem upload_left_behind_when_helper_raises:
  "extract_doc_content blank_scan_tasks (django_upload ''doc'' False) saved_upload_world =
     (\<lparr>fs = {''/tmp/upload''}, trace = [Doc ''/tmp/upload'']\<rparr>,
      Inl (ToolError ''antiword: not a Word document''))
   \<and> extract_pdf
       (blank_scan_tasks\<lparr>doctor_extract_from_pdf := \<lambda>p ocr. Inl (ToolError ''pdftotext: damaged file'')\<rparr>)
       (django_upload ''pdf'' False) saved_upload_world =
     (\<lparr>fs = {''/tmp/upload''}, trace = [ExtractFromPdf ''/tmp/upload'' False]\<rparr>,
      Inr (HttpResponse ''pdftotext: damaged file'' 406))"
  by (simp add: sample_defs extract_doc_content_def doc_content_locals_def run_extractor_def
        extract_pdf_def prog_defs NOT_ACCEPTABLE_def)

section \<open>The \<open>do_ocr\<close> parameter\<close>

lemma truthy_parse_do_ocr:
  "truthy (parse_do_ocr arg) \<longleftrightarrow> (\<exists>s. arg = Some s \<and> s \<noteq> [])"
  by (auto simp: parse_do_ocr_def split: option.splits)

text \<open>
  Claim C10.  Only the string \<open>True\<close> is turned into the boolean, but every other
  non-empty string stays a string and is truthy (lemma \<open>truthy_parse_do_ocr\<close>): with
  \<open>do_ocr=1\<close> the view rasterises the blank scan and runs OCR, exactly as with
  \<open>do_ocr=True\<close>.  Only a missing or empty parameter takes the branch without OCR.
\<close>

theorem do_ocr_other_values_enable_ocr:
  "parse_do_ocr (Some ''1'') = PyString ''1''
   \<and> truthy (parse_do_ocr (Some ''1''))
   \<and> truthy (parse_do_ocr (Some ''true''))
   \<and> truthy (parse_do_ocr (Some ''False''))
   \<and> \<not> truthy (parse_do_ocr None)
   \<and> extract_content blank_scan_tasks (flask_upload ''scan.pdf'' (Some ''1'')) empty_world =
       (\<lparr>fs = {},
          trace = [Pdftotext ''/tmp/tmpa1.pdf'',
                   Rasterize ''/tmp/tmpa1.pdf'' ''/tmp/tmpa1.tiff'',
                   PdfOcr ''/tmp/tmpa1.tiff'']\<rparr>,
        Inr [(''content'', JStr []),
             (''err'', JStr ''Unable to extract document content''),
             (''error_code'', JStr ''1'')])
   \<and> extract_content blank_scan_tasks (flask_upload ''scan.pdf'' None) empty_world =
       (\<lparr>fs = {}, trace = [Pdftotext ''/tmp/tmpa1.pdf'']\<rparr>,
        Inr [(''content'', JStr []),
             (''err'', JStr ''No content detected''),
             (''error_code'', JStr ''1'')])"
  by (simp add: parse_do_ocr_def sample_defs extract_content_def extract_content_locals_def
        prog_defs Let_def strip_def isspace_def str_opt_def str_int_1)

end
